theory Spec2Isabelle
  imports Main
begin

section \<open>Data model\<close>

text \<open>
  The shop, check-in and room-history pages keep their data in four Firestore collections:
  \<open>inventory\<close>, \<open>purchases\<close>, \<open>checkins\<close> and, under every check-in, \<open>payments\<close>.
  JavaScript numbers are modelled as exact integers (amounts counted in the smallest
  currency unit, quantities in whole items); rounding of IEEE doubles is outside the
  model. Timestamps are integers.
  Every record but \<open>CartItem\<close> prefixes its field names, because several TypeScript
  types share the names \<open>quantity\<close>, \<open>amount\<close>, \<open>itemName\<close>.
\<close>

text \<open>\<open>type CartItem\<close> of ShopPurchaseService.ts and Shop.tsx.\<close>

record CartItem =
  inventoryId :: string
  itemName :: string
  quantity :: int
  unitPrice :: int

text \<open>\<open>type InventoryItem\<close> of Shop.tsx: an inventory document together with its id.\<close>

record InventoryItem =
  item_id :: string
  item_itemName :: string
  item_quantity :: int
  item_unitPrice :: int
  item_category :: string

text \<open>A document of the \<open>inventory\<close> collection (the id is the key of the map).\<close>

record InventoryDoc =
  inv_itemName :: string
  inv_quantity :: int
  inv_unitPrice :: int
  inv_category :: string

text \<open>A document of the \<open>purchases\<close> collection, as \<open>processPurchase\<close> writes it.\<close>

record PurchaseDoc =
  p_checkinId :: string
  p_inventoryId :: string
  p_itemName :: string
  p_quantity :: int
  p_amount :: int
  p_paymentStatus :: string
  p_createdAt :: int

text \<open>A document of the \<open>checkins\<close> collection, as CheckIn.tsx creates it.\<close>

record CheckinDoc =
  c_guestName :: string
  c_rent :: int
  c_initialPayment :: int
  c_isCheckedOut :: bool
  c_checkedInAt :: int

text \<open>A document of a \<open>checkins/<id>/payments\<close> subcollection.\<close>

record PaymentDoc =
  pay_amount :: int
  pay_mode :: string
  pay_type :: string
  pay_timestamp :: int
  pay_description :: string

text \<open>
  \<open>type PaymentEntry\<close> of BookedRooms.tsx: a payment document together with its id;
  the description is optional there.
\<close>

record PaymentEntry =
  e_id :: string
  e_amount :: int
  e_mode :: string
  e_type :: string
  e_timestamp :: int
  e_description :: "string option"

text \<open>
  \<open>type Customer\<close> of BookedRooms.tsx, restricted to the fields that
  \<open>fetchPaymentHistory\<close> reads. The code guards against a missing check-in time
  (\<open>customer.checkedInAt || Timestamp.now()\<close>), so the field is optional.
\<close>

record Customer =
  cust_id :: string
  cust_rent :: int
  cust_checkedInAt :: "int option"

text \<open>
  The store. \<open>purchases\<close> and the payment subcollections receive documents with
  auto-generated ids only, so they are lists in insertion order. A subcollection exists
  independently of its parent document, hence \<open>payments\<close> is total on check-in ids.
  Firestore has no document with an empty id, so neither map is defined on the empty
  string in a store that the application can reach.
\<close>

record Store =
  inventory :: "string \<rightharpoonup> InventoryDoc"
  purchases :: "PurchaseDoc list"
  checkins :: "string \<rightharpoonup> CheckinDoc"
  payments :: "string \<Rightarrow> PaymentDoc list"

section \<open>Firestore write batches\<close>

text \<open>
  \<open>processPurchase\<close> issues four shapes of write through \<open>writeBatch\<close>:
  \<open>batch.update(inventoryRef, {quantity: increment(d)})\<close>,
  \<open>batch.set(purchaseRef, doc)\<close>,
  \<open>batch.update(checkinRef, {initialPayment: increment(d)})\<close> and
  \<open>batch.set(paymentRef, doc)\<close>.
  Firestore's \<open>update\<close> fails when the document does not exist, \<open>set\<close> on a fresh
  reference always creates the document, \<open>increment\<close> adds its operand to the numeric
  field with no floor, and \<open>commit\<close> applies all writes of the batch or none of them.
  A missing update target is the only rejection the model distinguishes; any other
  rejection of a commit (network, security rules) leaves the store untouched in the
  same way.
\<close>

datatype error =
    InvalidPurchaseData
  | NotFound string string

datatype batch_write =
    UpdateInventoryQuantity string int
  | SetPurchase PurchaseDoc
  | UpdateCheckinInitialPayment string int
  | SetPayment string PaymentDoc

fun apply_write :: "batch_write \<Rightarrow> Store \<Rightarrow> error + Store" where
  "apply_write (UpdateInventoryQuantity iid d) db =
     (case inventory db iid of
        None \<Rightarrow> Inl (NotFound ''inventory'' iid)
      | Some doc \<Rightarrow>
          Inr (db\<lparr>inventory := (inventory db)(iid \<mapsto> doc\<lparr>inv_quantity := inv_quantity doc + d\<rparr>)\<rparr>))"
| "apply_write (SetPurchase p) db = Inr (db\<lparr>purchases := purchases db @ [p]\<rparr>)"
| "apply_write (UpdateCheckinInitialPayment cid d) db =
     (case checkins db cid of
        None \<Rightarrow> Inl (NotFound ''checkins'' cid)
      | Some doc \<Rightarrow>
          Inr (db\<lparr>checkins := (checkins db)(cid \<mapsto> doc\<lparr>c_initialPayment := c_initialPayment doc + d\<rparr>)\<rparr>))"
| "apply_write (SetPayment cid e) db =
     Inr (db\<lparr>payments := (payments db)(cid := payments db cid @ [e])\<rparr>)"

fun apply_writes :: "batch_write list \<Rightarrow> Store \<Rightarrow> error + Store" where
  "apply_writes [] db = Inr db"
| "apply_writes (w # ws) db =
     (case apply_write w db of Inl e \<Rightarrow> Inl e | Inr db' \<Rightarrow> apply_writes ws db')"

text \<open>\<open>batch.commit()\<close>: the new store when every write applies, the old one otherwise.\<close>

definition commit :: "batch_write list \<Rightarrow> Store \<Rightarrow> (error + unit) \<times> Store" where
  "commit batch db =
     (case apply_writes batch db of
        Inl e \<Rightarrow> (Inl e, db)
      | Inr db' \<Rightarrow> (Inr (), db'))"

section \<open>ShopPurchaseService.processPurchase\<close>

text \<open>Decimal rendering of \<open>cartItems.length\<close> inside the template string.\<close>

fun show_nat :: "nat \<Rightarrow> string" where
  "show_nat n =
     (if n < 10 then [''0123456789'' ! n]
      else show_nat (n div 10) @ [''0123456789'' ! (n mod 10)])"

declare show_nat.simps [simp del]

record PurchaseResult =
  success :: bool
  message :: string

text \<open>
  \<open>cartItems.reduce((total, item) => total + item.quantity * item.unitPrice, 0)\<close>.
  The fold runs over the lines in cart order, as the code's does. The code adds IEEE
  doubles, the model adds integers: a statement that evaluates the same expression on
  both sides carries over, one that regroups or reorders sums of amounts (a total over
  all purchase records of a stay against a total over its payment entries) depends on
  rounding in the code and is not stated in this theory.
\<close>

definition totalAmount :: "CartItem list \<Rightarrow> int" where
  "totalAmount cartItems =
     foldl (\<lambda>total item. total + quantity item * unitPrice item) 0 cartItems"

text \<open>The purchase record of one cart line, created at time \<open>t\<close>.\<close>

definition purchaseDoc :: "string \<Rightarrow> int \<Rightarrow> CartItem \<Rightarrow> PurchaseDoc" where
  "purchaseDoc checkinId t item =
     \<lparr>p_checkinId = checkinId,
      p_inventoryId = inventoryId item,
      p_itemName = itemName item,
      p_quantity = quantity item,
      p_amount = quantity item * unitPrice item,
      p_paymentStatus = ''pending'',
      p_createdAt = t\<rparr>"

text \<open>The payment entry for the whole cart, created at time \<open>t\<close>.\<close>

definition shopPaymentDoc :: "int \<Rightarrow> CartItem list \<Rightarrow> PaymentDoc" where
  "shopPaymentDoc t cartItems =
     \<lparr>pay_amount = - totalAmount cartItems,
      pay_mode = ''shop'',
      pay_type = ''shop-purchase'',
      pay_timestamp = t,
      pay_description = ''Shop purchase ('' @ show_nat (length cartItems) @ '' items)''\<rparr>"

text \<open>
  The writes in the order the function adds them to the batch. \<open>clock k\<close> is the value
  of the \<open>k\<close>-th call of \<open>Timestamp.now()\<close>: one call per purchase record, then one for
  the payment entry.
\<close>

definition purchaseBatch :: "(nat \<Rightarrow> int) \<Rightarrow> string \<Rightarrow> CartItem list \<Rightarrow> batch_write list" where
  "purchaseBatch clock checkinId cartItems =
     map (\<lambda>item. UpdateInventoryQuantity (inventoryId item) (- quantity item)) cartItems
     @ map (\<lambda>(k, item). SetPurchase (purchaseDoc checkinId (clock k) item))
         (enumerate 0 cartItems)
     @ [UpdateCheckinInitialPayment checkinId (- totalAmount cartItems),
        SetPayment checkinId (shopPaymentDoc (clock (length cartItems)) cartItems)]"

text \<open>
  The function itself: the guard throws before the batch exists; a rejected commit is
  rethrown by the \<open>catch\<close> block. The result pairs the outcome with the store afterwards.
\<close>

definition processPurchase ::
  "Store \<Rightarrow> (nat \<Rightarrow> int) \<Rightarrow> string \<Rightarrow> CartItem list \<Rightarrow> (error + PurchaseResult) \<times> Store" where
  "processPurchase db clock checkinId cartItems =
     (if checkinId = [] \<or> length cartItems = 0 then (Inl InvalidPurchaseData, db)
      else
        (case commit (purchaseBatch clock checkinId cartItems) db of
           (Inl e, db') \<Rightarrow> (Inl e, db')
         | (Inr u, db') \<Rightarrow>
             (Inr \<lparr>success = True, message = ''Purchase processed successfully''\<rparr>, db')))"

section \<open>Shop.tsx: building the cart\<close>

text \<open>
  \<open>addToCart\<close> returns the next value of the \<open>cartItems\<close> state; the toasts are not
  modelled. \<open>item\<close> comes from the inventory list the page fetched when it was loaded,
  so its quantity and unit price are those of that moment.
\<close>

definition addToCart :: "string \<Rightarrow> CartItem list \<Rightarrow> InventoryItem \<Rightarrow> CartItem list" where
  "addToCart selectedRoom cartItems item =
     (if selectedRoom = [] then cartItems
      else
        (case find (\<lambda>cartItem. inventoryId cartItem = item_id item) cartItems of
           Some existingItem \<Rightarrow>
             if quantity existingItem \<ge> item_quantity item then cartItems
             else map (\<lambda>cartItem.
                    if inventoryId cartItem = item_id item
                    then cartItem\<lparr>quantity := quantity cartItem + 1\<rparr>
                    else cartItem) cartItems
         | None \<Rightarrow>
             cartItems @
               [\<lparr>inventoryId = item_id item,
                 itemName = item_itemName item,
                 quantity = 1,
                 unitPrice = item_unitPrice item\<rparr>]))"

section \<open>Inventory.tsx: adjusting stock by hand\<close>

text \<open>
  The new quantity that \<open>handleUpdateQuantity\<close> writes: \<open>item.quantity + quantity\<close> for
  \<open>add\<close>, \<open>Math.max(0, item.quantity - quantity)\<close> for \<open>remove\<close> (the entered
  quantity is \<open>n\<close> here, the name \<open>quantity\<close> being a field of \<open>CartItem\<close>).
\<close>

datatype operation = Add | Remove

definition newQuantity :: "operation \<Rightarrow> int \<Rightarrow> int \<Rightarrow> int" where
  "newQuantity operation itemQuantity n =
     (if operation = Add then itemQuantity + n
      else max 0 (itemQuantity - n))"

section \<open>BookedRooms.tsx: the transaction history of a stay\<close>

text \<open>
  The pure part of \<open>fetchPaymentHistory\<close>. \<open>history\<close> is the payment subcollection in
  timestamp order; \<open>now\<close> stands for the value of \<open>Timestamp.now()\<close> at the call.
\<close>

definition rentEntry :: "Customer \<Rightarrow> int \<Rightarrow> PaymentEntry" where
  "rentEntry customer now =
     \<lparr>e_id = ''rent-entry'',
      e_amount = cust_rent customer,
      e_mode = ''n/a'',
      e_type = ''Rent (Check-in)'',
      e_timestamp = (case cust_checkedInAt customer of Some t \<Rightarrow> t | None \<Rightarrow> now),
      e_description = None\<rparr>"

definition advanceEntry :: "Customer \<Rightarrow> int \<Rightarrow> PaymentEntry list \<Rightarrow> PaymentEntry" where
  "advanceEntry customer now history =
     (case find (\<lambda>p. e_type p = ''initial'') history of
        Some initialPayment \<Rightarrow> initialPayment
      | None \<Rightarrow>
          \<lparr>e_id = ''advance-entry'',
           e_amount = cust_rent customer,
           e_mode = ''cash'',
           e_type = ''initial'',
           e_timestamp = (case cust_checkedInAt customer of Some t \<Rightarrow> t | None \<Rightarrow> now),
           e_description = Some ''Initial payment at check-in''\<rparr>)"

definition fullHistory ::
  "Customer \<Rightarrow> int \<Rightarrow> int \<Rightarrow> PaymentEntry list \<Rightarrow> PaymentEntry list" where
  "fullHistory customer now1 now2 history =
     [rentEntry customer now1, advanceEntry customer now2 history]
     @ filter (\<lambda>p. e_type p \<noteq> ''initial'') history"

section \<open>HousePage.tsx: base rent and total rent\<close>

text \<open>
  Modelled from the spec: \<open>fetchPaymentHistory\<close> of \<open>src/pages/houses/HousePage.tsx\<close> is
  not among the source files; \<open>HOUSE_PENDING_AMOUNT_FIX.md\<close> quotes the lines that compute
  the extension total, which step 1 of the calculator's algorithm describes.
\<close>

definition extensionTotal :: "PaymentEntry list \<Rightarrow> int" where
  "extensionTotal history =
     foldl (\<lambda>sum entry. sum + e_amount entry) 0
       (filter (\<lambda>entry. e_type entry = ''extension'') history)"

text \<open>
  Modelled from the spec: the extra-fee total of the same missing function (step 2 of the
  algorithm, quoted in \<open>HOUSE_PENDING_AMOUNT_FIX.md\<close>).
\<close>

definition extraFeesTotal :: "PaymentEntry list \<Rightarrow> int" where
  "extraFeesTotal history =
     foldl (\<lambda>sum entry. sum + e_amount entry) 0
       (filter (\<lambda>entry. e_type entry = ''extra-fee'') history)"

text \<open>
  Modelled from the spec: \<open>baseRent = booking.rent - extensionTotal - extraFeesTotal\<close>, the
  last quoted line of the missing function and step 3 of the algorithm.
\<close>

definition baseRent :: "int \<Rightarrow> PaymentEntry list \<Rightarrow> int" where
  "baseRent rent history = rent - extensionTotal history - extraFeesTotal history"

text \<open>
  Modelled from the spec: step 4 of the algorithm, \<open>totalRentSoFar = baseRent +
  extensionsTotal + feesTotal\<close>; \<open>getTotalRentSoFar\<close> of HousePage.tsx is missing as well.
\<close>

definition totalRentSoFar :: "int \<Rightarrow> PaymentEntry list \<Rightarrow> int" where
  "totalRentSoFar rent history =
     baseRent rent history + extensionTotal history + extraFeesTotal history"

section \<open>Notions used to state the properties\<close>

text \<open>The quantity a cart asks of one inventory item, summed over its lines.\<close>

definition requested :: "string \<Rightarrow> CartItem list \<Rightarrow> int" where
  "requested iid cartItems =
     sum_list (map quantity (filter (\<lambda>item. inventoryId item = iid) cartItems))"

text \<open>The inventory after every line of the cart has been subtracted.\<close>

definition decremented ::
  "CartItem list \<Rightarrow> (string \<rightharpoonup> InventoryDoc) \<Rightarrow> (string \<rightharpoonup> InventoryDoc)" where
  "decremented cartItems m =
     (\<lambda>iid. map_option (\<lambda>d. d\<lparr>inv_quantity := inv_quantity d - requested iid cartItems\<rparr>) (m iid))"

text \<open>The first cart line whose inventory document is missing, if any.\<close>

definition missingLine :: "Store \<Rightarrow> CartItem list \<Rightarrow> CartItem option" where
  "missingLine db cartItems = find (\<lambda>item. inventory db (inventoryId item) = None) cartItems"

text \<open>The purchase records of a cart, in cart order.\<close>

definition purchaseDocs :: "(nat \<Rightarrow> int) \<Rightarrow> string \<Rightarrow> CartItem list \<Rightarrow> PurchaseDoc list" where
  "purchaseDocs clock checkinId cartItems =
     map (\<lambda>(k, item). purchaseDoc checkinId (clock k) item) (enumerate 0 cartItems)"

text \<open>The store a successful purchase leaves behind, given the check-in document \<open>c\<close>.\<close>

definition committed ::
  "Store \<Rightarrow> (nat \<Rightarrow> int) \<Rightarrow> string \<Rightarrow> CartItem list \<Rightarrow> CheckinDoc \<Rightarrow> Store" where
  "committed db clock checkinId cartItems c =
     db\<lparr>inventory := decremented cartItems (inventory db),
        purchases := purchases db @ purchaseDocs clock checkinId cartItems,
        checkins := (checkins db)(checkinId \<mapsto>
                      c\<lparr>c_initialPayment := c_initialPayment c - totalAmount cartItems\<rparr>),
        payments := (payments db)(checkinId := payments db checkinId
                      @ [shopPaymentDoc (clock (length cartItems)) cartItems])\<rparr>"

text \<open>The value \<open>processPurchase\<close> returns on success.\<close>

definition ok_result :: PurchaseResult where
  "ok_result = \<lparr>success = True, message = ''Purchase processed successfully''\<rparr>"

text \<open>
  Reading a string of decimal digits back as a number, to say what the rendering of the
  cart's length in the description stands for.
\<close>

definition digit_value :: "char \<Rightarrow> nat" where
  "digit_value c = of_char c - 48"

definition decimal_value :: "string \<Rightarrow> nat" where
  "decimal_value s = foldl (\<lambda>v c. 10 * v + digit_value c) 0 s"

text \<open>The store with the unit price of every inventory document replaced.\<close>

definition withPrices :: "(string \<Rightarrow> int) \<Rightarrow> Store \<Rightarrow> Store" where
  "withPrices price db =
     db\<lparr>inventory := (\<lambda>iid. map_option (\<lambda>d. d\<lparr>inv_unitPrice := price iid\<rparr>) (inventory db iid))\<rparr>"

section \<open>Example data\<close>

definition tick :: "nat \<Rightarrow> int" where
  "tick k = 1000 + int k"

text \<open>Two items in stock, one open stay and one checked-out stay, nothing bought yet.\<close>

definition shop_db :: Store where
  "shop_db =
     \<lparr>inventory =
        [''soap'' \<mapsto> \<lparr>inv_itemName = ''Soap'', inv_quantity = 2, inv_unitPrice = 50,
                      inv_category = ''toiletries''\<rparr>,
         ''water'' \<mapsto> \<lparr>inv_itemName = ''Water'', inv_quantity = 10, inv_unitPrice = 20,
                       inv_category = ''drinks''\<rparr>],
      purchases = [],
      checkins =
        [''stay1'' \<mapsto> \<lparr>c_guestName = ''Asha'', c_rent = 1000, c_initialPayment = 1000,
                       c_isCheckedOut = False, c_checkedInAt = 10\<rparr>,
         ''stay2'' \<mapsto> \<lparr>c_guestName = ''Ravi'', c_rent = 800, c_initialPayment = 800,
                       c_isCheckedOut = True, c_checkedInAt = 5\<rparr>],
      payments = (\<lambda>checkinId. [])\<rparr>"

definition soap_line :: "int \<Rightarrow> CartItem" where
  "soap_line n = \<lparr>inventoryId = ''soap'', itemName = ''Soap'', quantity = n, unitPrice = 50\<rparr>"

definition water_line :: "int \<Rightarrow> CartItem" where
  "water_line n = \<lparr>inventoryId = ''water'', itemName = ''Water'', quantity = n, unitPrice = 20\<rparr>"

text \<open>A line for an item that has no inventory document.\<close>

definition tea_line :: "int \<Rightarrow> CartItem" where
  "tea_line n = \<lparr>inventoryId = ''tea'', itemName = ''Tea'', quantity = n, unitPrice = 15\<rparr>"

text \<open>The soap as the shop page listed it when it was loaded.\<close>

definition soap_item :: InventoryItem where
  "soap_item = \<lparr>item_id = ''soap'', item_itemName = ''Soap'', item_quantity = 2,
                 item_unitPrice = 50, item_category = ''toiletries''\<rparr>"

text \<open>The soap as a page listed it earlier, when five were on hand.\<close>

definition stale_soap_item :: InventoryItem where
  "stale_soap_item = \<lparr>item_id = ''soap'', item_itemName = ''Soap'', item_quantity = 5,
                       item_unitPrice = 50, item_category = ''toiletries''\<rparr>"

text \<open>The same store after the soap's price was raised to 70.\<close>

definition repriced_db :: Store where
  "repriced_db = withPrices (\<lambda>iid. if iid = ''soap'' then 70 else 20) shop_db"

text \<open>A cart of twelve lines that takes the whole stock.\<close>

definition twelve_lines :: "CartItem list" where
  "twelve_lines = replicate 2 (soap_line 1) @ replicate 10 (water_line 1)"

definition legacy_customer :: Customer where
  "legacy_customer = \<lparr>cust_id = ''stay2'', cust_rent = 800, cust_checkedInAt = Some 5\<rparr>"

definition advance_only :: "PaymentEntry list" where
  "advance_only =
     [\<lparr>e_id = ''p1'', e_amount = 300, e_mode = ''cash'', e_type = ''advance'',
       e_timestamp = 7, e_description = Some ''Payment added for checked-out guest''\<rparr>]"

definition with_initial :: "PaymentEntry list" where
  "with_initial =
     [\<lparr>e_id = ''p0'', e_amount = 500, e_mode = ''gpay'', e_type = ''initial'',
       e_timestamp = 6, e_description = Some ''Initial payment at check-in''\<rparr>,
      \<lparr>e_id = ''p1'', e_amount = 300, e_mode = ''cash'', e_type = ''advance'',
       e_timestamp = 7, e_description = Some ''Payment added for checked-out guest''\<rparr>]"

text \<open>Rent 1000 with one extension of 200 and one extra fee of 50 on the ledger.\<close>

definition extended_history :: "PaymentEntry list" where
  "extended_history =
     [\<lparr>e_id = ''p0'', e_amount = 1000, e_mode = ''cash'', e_type = ''initial'',
       e_timestamp = 6, e_description = Some ''Initial payment at check-in''\<rparr>,
      \<lparr>e_id = ''p1'', e_amount = 200, e_mode = ''n/a'', e_type = ''extension'',
       e_timestamp = 7, e_description = None\<rparr>,
      \<lparr>e_id = ''p2'', e_amount = 50, e_mode = ''n/a'', e_type = ''extra-fee'',
       e_timestamp = 8, e_description = None\<rparr>]"

section \<open>Lemmas about batches and purchases\<close>

lemma requested_Nil [simp]: "requested iid [] = 0"
  by (simp add: requested_def)

lemma requested_Cons:
  "requested iid (item # cart) =
     (if inventoryId item = iid then quantity item else 0) + requested iid cart"
  by (simp add: requested_def)

lemma decremented_Nil [simp]: "decremented [] m = m"
  by (rule ext) (simp add: decremented_def option.map_ident)

lemma decremented_Cons:
  "m (inventoryId item) = Some d \<Longrightarrow>
   decremented cart (m(inventoryId item \<mapsto> d\<lparr>inv_quantity := inv_quantity d + - quantity item\<rparr>))
     = decremented (item # cart) m"
  by (rule ext) (auto simp: decremented_def requested_Cons)

lemma apply_writes_append:
  "apply_writes (xs @ ys) db =
     (case apply_writes xs db of Inl e \<Rightarrow> Inl e | Inr db' \<Rightarrow> apply_writes ys db')"
  by (induction xs arbitrary: db) (auto split: sum.splits)

lemma missingLine_update:
  "inventory db iid = Some d \<Longrightarrow>
   missingLine (db\<lparr>inventory := (inventory db)(iid \<mapsto> d')\<rparr>) cart = missingLine db cart"
  unfolding missingLine_def by (rule find_cong) auto

lemma inventory_updates:
  "apply_writes
     (map (\<lambda>item. UpdateInventoryQuantity (inventoryId item) (- quantity item)) cart) db
   = (case missingLine db cart of
        Some item \<Rightarrow> Inl (NotFound ''inventory'' (inventoryId item))
      | None \<Rightarrow> Inr (db\<lparr>inventory := decremented cart (inventory db)\<rparr>))"
proof (induction cart arbitrary: db)
  case Nil
  then show ?case by (simp add: missingLine_def)
next
  case (Cons item cart)
  let ?upd = "\<lambda>item. UpdateInventoryQuantity (inventoryId item) (- quantity item)"
  show ?case
  proof (cases "inventory db (inventoryId item)")
    case None
    then show ?thesis by (simp add: missingLine_def)
  next
    case (Some d)
    let ?m = "(inventory db)(inventoryId item \<mapsto> d\<lparr>inv_quantity := inv_quantity d + - quantity item\<rparr>)"
    let ?db = "db\<lparr>inventory := ?m\<rparr>"
    have miss: "missingLine ?db cart = missingLine db cart"
      by (rule missingLine_update [OF Some])
    have miss': "missingLine db (item # cart) = missingLine db cart"
      using Some by (simp add: missingLine_def)
    have "apply_writes (map ?upd (item # cart)) db = apply_writes (map ?upd cart) ?db"
      using Some by simp
    also have "\<dots> = (case missingLine db cart of
        Some item \<Rightarrow> Inl (NotFound ''inventory'' (inventoryId item))
      | None \<Rightarrow> Inr (?db\<lparr>inventory := decremented cart (inventory ?db)\<rparr>))"
      unfolding Cons.IH miss ..
    also have "\<dots> = (case missingLine db cart of
        Some item \<Rightarrow> Inl (NotFound ''inventory'' (inventoryId item))
      | None \<Rightarrow> Inr (db\<lparr>inventory := decremented cart ?m\<rparr>))"
      by (simp split: option.splits)
    also have "\<dots> = (case missingLine db (item # cart) of
        Some item \<Rightarrow> Inl (NotFound ''inventory'' (inventoryId item))
      | None \<Rightarrow> Inr (db\<lparr>inventory := decremented (item # cart) (inventory db)\<rparr>))"
      by (simp only: decremented_Cons [of "inventory db" item d cart, OF Some] miss')
    finally show ?thesis .
  qed
qed

lemma set_purchases:
  "apply_writes (map (\<lambda>(k, item). SetPurchase (f k item)) xs) db
     = Inr (db\<lparr>purchases := purchases db @ map (\<lambda>(k, item). f k item) xs\<rparr>)"
  by (induction xs arbitrary: db) auto

lemma purchaseBatch_result:
  "apply_writes (purchaseBatch clock cid cart) db =
     (case missingLine db cart of
        Some item \<Rightarrow> Inl (NotFound ''inventory'' (inventoryId item))
      | None \<Rightarrow>
         (case checkins db cid of
            None \<Rightarrow> Inl (NotFound ''checkins'' cid)
          | Some c \<Rightarrow> Inr (committed db clock cid cart c)))"
  by (simp add: purchaseBatch_def apply_writes_append inventory_updates set_purchases
      committed_def purchaseDocs_def split: option.splits)

lemma processPurchase_result:
  "processPurchase db clock cid cart =
     (if cid = [] \<or> cart = [] then (Inl InvalidPurchaseData, db)
      else case missingLine db cart of
             Some item \<Rightarrow> (Inl (NotFound ''inventory'' (inventoryId item)), db)
           | None \<Rightarrow>
              (case checkins db cid of
                 None \<Rightarrow> (Inl (NotFound ''checkins'' cid), db)
               | Some c \<Rightarrow> (Inr ok_result, committed db clock cid cart c)))"
  by (simp add: processPurchase_def commit_def purchaseBatch_result ok_result_def
      split: option.splits)

lemma missingLine_None_iff:
  "missingLine db cart = None \<longleftrightarrow> (\<forall>item\<in>set cart. inventory db (inventoryId item) \<noteq> None)"
  by (auto simp: missingLine_def find_None_iff)

lemma totalAmount_sum:
  "totalAmount cart = sum_list (map (\<lambda>item. quantity item * unitPrice item) cart)"
proof -
  have "foldl (\<lambda>total item. total + quantity item * unitPrice item) a cart
          = a + sum_list (map (\<lambda>item. quantity item * unitPrice item) cart)" for a
    by (induction cart arbitrary: a) simp_all
  from this [of 0] show ?thesis by (simp add: totalAmount_def)
qed

lemma processPurchase_success:
  assumes "processPurchase db clock cid cart = (Inr r, db')"
  obtains c where "cid \<noteq> []" "cart \<noteq> []" "missingLine db cart = None"
    "checkins db cid = Some c" "r = ok_result" "db' = committed db clock cid cart c"
  using assms unfolding processPurchase_result
  by (auto split: if_splits option.splits)

lemma missingLine_withPrices: "missingLine (withPrices price db) cart = missingLine db cart"
  by (simp add: missingLine_def withPrices_def)

lemma digit_value_digit: "d < 10 \<Longrightarrow> digit_value (''0123456789'' ! d) = d"
proof -
  assume "d < 10"
  then consider "d = 0" | "d = 1" | "d = 2" | "d = 3" | "d = 4" | "d = 5" | "d = 6"
    | "d = 7" | "d = 8" | "d = 9" by atomize_elim arith
  then show ?thesis by cases (simp_all add: digit_value_def)
qed

lemma digit_in_digits: "d < 10 \<Longrightarrow> ''0123456789'' ! d \<in> set ''0123456789''"
  by (rule nth_mem) simp

lemma decimal_value_snoc: "decimal_value (s @ [c]) = 10 * decimal_value s + digit_value c"
  by (simp add: decimal_value_def)

lemma decimal_value_show_nat: "decimal_value (show_nat n) = n"
proof (induction n rule: show_nat.induct)
  case (1 n)
  show ?case
  proof (cases "n < 10")
    case True
    then show ?thesis
      by (subst show_nat.simps) (simp add: decimal_value_def digit_value_digit)
  next
    case False
    with 1 have "decimal_value (show_nat (n div 10)) = n div 10" by simp
    moreover have "digit_value (''0123456789'' ! (n mod 10)) = n mod 10"
      by (rule digit_value_digit) simp
    ultimately show ?thesis using False
      by (subst show_nat.simps) (simp add: decimal_value_snoc)
  qed
qed

lemma show_nat_digits: "set (show_nat n) \<subseteq> set ''0123456789''"
proof (induction n rule: show_nat.induct)
  case (1 n)
  show ?case
  proof (cases "n < 10")
    case True
    then have "''0123456789'' ! n \<in> set ''0123456789''" by (rule digit_in_digits)
    with True show ?thesis by (subst show_nat.simps) simp
  next
    case False
    with 1 have "set (show_nat (n div 10)) \<subseteq> set ''0123456789''" by simp
    moreover have "''0123456789'' ! (n mod 10) \<in> set ''0123456789''"
      by (rule digit_in_digits) simp
    ultimately show ?thesis using False by (subst show_nat.simps) simp
  qed
qed

lemma newQuantity_floor: "0 \<le> newQuantity Remove itemQuantity n"
  by (simp add: newQuantity_def)

lemma foldl_amount_sum:
  "foldl (\<lambda>sum entry. sum + e_amount entry) a es = a + sum_list (map e_amount es)"
  by (induction es arbitrary: a) simp_all

text \<open>Evaluation of the examples unfolds these.\<close>

lemmas example_defs =
  shop_db_def soap_line_def water_line_def tea_line_def tick_def
  processPurchase_result missingLine_def committed_def decremented_def requested_def
  purchaseDocs_def purchaseDoc_def shopPaymentDoc_def ok_result_def totalAmount_def

section \<open>The cart builder keeps lines within the listed stock and keeps their prices\<close>

lemma addToCart_distinct:
  assumes "distinct (map inventoryId cartItems)"
  shows "distinct (map inventoryId (addToCart selectedRoom cartItems item))"
proof (cases "find (\<lambda>cartItem. inventoryId cartItem = item_id item) cartItems")
  case None
  then have "item_id item \<notin> inventoryId ` set cartItems"
    by (auto simp: find_None_iff)
  with assms None show ?thesis by (simp add: addToCart_def)
next
  case (Some existingItem)
  have "inventoryId \<circ> (\<lambda>cartItem :: CartItem.
            if inventoryId cartItem = item_id item
            then cartItem\<lparr>quantity := quantity cartItem + 1\<rparr>
            else cartItem) = inventoryId"
    by (rule ext) simp
  with assms Some show ?thesis by (simp add: addToCart_def)
qed

lemma addToCart_within_stock:
  assumes dist: "distinct (map inventoryId cartItems)"
    and le: "\<forall>line\<in>set cartItems. inventoryId line = item_id item \<longrightarrow> quantity line \<le> item_quantity item"
    and pos: "1 \<le> item_quantity item"
  shows "\<forall>line\<in>set (addToCart selectedRoom cartItems item).
           inventoryId line = item_id item \<longrightarrow> quantity line \<le> item_quantity item"
proof (cases "find (\<lambda>cartItem. inventoryId cartItem = item_id item) cartItems")
  case None
  then show ?thesis using le pos by (auto simp: addToCart_def)
next
  case (Some existingItem)
  then have ex: "existingItem \<in> set cartItems" "inventoryId existingItem = item_id item"
    by (auto simp: find_Some_iff in_set_conv_nth)
  show ?thesis
  proof (cases "quantity existingItem \<ge> item_quantity item")
    case True
    then show ?thesis using le Some by (auto simp: addToCart_def)
  next
    case False
    have "quantity line + 1 \<le> item_quantity item"
      if "line \<in> set cartItems" "inventoryId line = item_id item" for line
    proof -
      from dist have "inj_on inventoryId (set cartItems)"
        by (simp add: distinct_map)
      moreover have "inventoryId line = inventoryId existingItem"
        using that ex by simp
      ultimately have "line = existingItem"
        using that(1) ex(1) by (rule inj_onD)
      with False show ?thesis by simp
    qed
    then show ?thesis using le Some False by (auto simp: addToCart_def)
  qed
qed

lemma addToCart_keeps_price:
  "map unitPrice (addToCart selectedRoom cartItems item) = map unitPrice cartItems
   \<or> map unitPrice (addToCart selectedRoom cartItems item)
       = map unitPrice cartItems @ [item_unitPrice item]"
proof -
  have "map unitPrice (map (\<lambda>cartItem :: CartItem.
            if inventoryId cartItem = item_id item
            then cartItem\<lparr>quantity := quantity cartItem + 1\<rparr>
            else cartItem) cartItems) = map unitPrice cartItems"
    by (induction cartItems) simp_all
  then show ?thesis
    by (simp add: addToCart_def split: option.splits)
qed

section \<open>Stock and the purchase transaction\<close>

text \<open>
  What \<open>processPurchase\<close> does to the inventory when it commits: every item's quantity
  drops by the total the cart requests of it; the quantity on hand is not read.
\<close>

lemma processPurchase_decrements_unchecked:
  assumes "checkinId \<noteq> []" and "cartItems \<noteq> []"
    and "\<forall>item\<in>set cartItems. inventory db (inventoryId item) \<noteq> None"
    and "checkins db checkinId \<noteq> None"
  shows "fst (processPurchase db clock checkinId cartItems) = Inr ok_result \<and>
    (\<forall>iid d. inventory db iid = Some d \<longrightarrow>
       inventory (snd (processPurchase db clock checkinId cartItems)) iid
         = Some (d\<lparr>inv_quantity := inv_quantity d - requested iid cartItems\<rparr>))"
proof -
  from assms(3) have "missingLine db cartItems = None"
    by (simp add: missingLine_None_iff)
  moreover from assms(4) obtain c where "checkins db checkinId = Some c" by auto
  ultimately have "processPurchase db clock checkinId cartItems
      = (Inr ok_result, committed db clock checkinId cartItems c)"
    using assms(1,2) by (simp add: processPurchase_result)
  then show ?thesis by (simp add: committed_def decremented_def)
qed

text \<open>
  C1. A purchase with a line that requests more than is on hand when it commits has to
  fail, naming the item, and decrement nothing, so that no quantity goes below zero.
  The code does not: a cart of five soaps, built by \<open>addToCart\<close> from a list loaded
  when five were on hand, is committed against a store that has two left; the call
  succeeds and the quantity on hand becomes \<open>-3\<close>. The other paths of the code keep
  quantities from going negative at the same numbers: against the current list
  \<open>addToCart\<close> refuses a third soap, and removing five from two on the inventory page
  ends at zero.
\<close>

theorem processPurchase_oversell:
  "addToCart ''stay1'' (addToCart ''stay1'' (addToCart ''stay1'' (addToCart ''stay1''
     (addToCart ''stay1'' [] stale_soap_item) stale_soap_item) stale_soap_item)
     stale_soap_item) stale_soap_item = [soap_line 5]
   \<and> map_option inv_quantity (inventory shop_db ''soap'') = Some 2
   \<and> fst (processPurchase shop_db tick ''stay1'' [soap_line 5]) = Inr ok_result
   \<and> map_option inv_quantity
        (inventory (snd (processPurchase shop_db tick ''stay1'' [soap_line 5])) ''soap'')
       = Some (- 3)
   \<and> addToCart ''stay1'' [soap_line 2] soap_item = [soap_line 2]
   \<and> newQuantity Remove 2 5 = 0"
  by (simp add: example_defs addToCart_def soap_item_def stale_soap_item_def newQuantity_def)

section \<open>All or nothing\<close>

text \<open>
  C2. Whenever \<open>processPurchase\<close> fails, for whatever reason (the guard on its
  arguments, or a batch that the store rejects because a document to update is missing,
  also after earlier writes of the batch would have applied), the store afterwards is
  the store before: every inventory quantity, the purchase records, every check-in
  document and every payment subcollection are unchanged.
\<close>

theorem processPurchase_all_or_nothing:
  "fst (processPurchase db clock checkinId cartItems) = Inl e \<Longrightarrow>
   snd (processPurchase db clock checkinId cartItems) = db"
  by (auto simp: processPurchase_def commit_def split: sum.splits if_splits)

text \<open>
  An instance: the first line (soap) would apply, the second (tea) has no inventory
  document; the soap quantity is not decremented.
\<close>

theorem processPurchase_all_or_nothing_witness:
  "fst (processPurchase shop_db tick ''stay1'' [soap_line 1, tea_line 1])
     = Inl (NotFound ''inventory'' ''tea'')
   \<and> snd (processPurchase shop_db tick ''stay1'' [soap_line 1, tea_line 1]) = shop_db"
proof -
  have h: "fst (processPurchase shop_db tick ''stay1'' [soap_line 1, tea_line 1])
             = Inl (NotFound ''inventory'' ''tea'')"
    by (simp add: processPurchase_result missingLine_def shop_db_def soap_line_def tea_line_def)
  from processPurchase_all_or_nothing [OF h] h show ?thesis by simp
qed

section \<open>Base rent\<close>

text \<open>
  C4. The base rent is the stay's rent minus the sum of its extension entries minus the
  sum of its extra-fee entries, and the total rent so far, rebuilt from the three parts,
  is the stay's rent again. With rent 1000, one extension of 200 and one extra fee of
  50 the base rent is 750 and the total rent so far is 1000, not 1200.
\<close>

theorem baseRent_no_double_counting:
  "baseRent rent history
     = rent - (\<Sum>entry\<leftarrow>filter (\<lambda>entry. e_type entry = ''extension'') history. e_amount entry)
            - (\<Sum>entry\<leftarrow>filter (\<lambda>entry. e_type entry = ''extra-fee'') history. e_amount entry)
   \<and> totalRentSoFar rent history = rent
   \<and> baseRent 1000 extended_history = 750
   \<and> totalRentSoFar 1000 extended_history = 1000
   \<and> totalRentSoFar 1000 extended_history \<noteq> 1200"
  by (simp add: baseRent_def totalRentSoFar_def extensionTotal_def extraFeesTotal_def
      foldl_amount_sum extended_history_def)

section \<open>What a successful purchase writes\<close>

text \<open>
  C5. A successful \<open>processPurchase\<close> (its cart is then non-empty) appends exactly
  one entry to the payments of the target stay and none to any other stay. The entry's
  amount is minus the sum of quantity times unit price over the cart lines, its type is
  \<open>shop-purchase\<close>, its mode is \<open>shop\<close> (the value the code writes for an entry that is
  neither cash nor gpay), its description is \<open>Shop purchase (n items)\<close> with \<open>n\<close> the
  number of cart lines written in decimal digits. It also appends exactly one purchase
  record per cart line, in cart order, with amount quantity times unit price and
  payment status \<open>pending\<close>.
\<close>

theorem processPurchase_ledger_entry_and_records:
  assumes "processPurchase db clock checkinId cartItems = (Inr r, db')"
  shows "cartItems \<noteq> []
    \<and> payments db' checkinId = payments db checkinId @
        [\<lparr>pay_amount = - (\<Sum>item\<leftarrow>cartItems. quantity item * unitPrice item),
          pay_mode = ''shop'',
          pay_type = ''shop-purchase'',
          pay_timestamp = clock (length cartItems),
          pay_description = ''Shop purchase ('' @ show_nat (length cartItems) @ '' items)''\<rparr>]
    \<and> (\<forall>other. other \<noteq> checkinId \<longrightarrow> payments db' other = payments db other)
    \<and> purchases db' = purchases db @
        map (\<lambda>(k, item).
              \<lparr>p_checkinId = checkinId,
               p_inventoryId = inventoryId item,
               p_itemName = itemName item,
               p_quantity = quantity item,
               p_amount = quantity item * unitPrice item,
               p_paymentStatus = ''pending'',
               p_createdAt = clock k\<rparr>) (enumerate 0 cartItems)
    \<and> length (purchases db') = length (purchases db) + length cartItems
    \<and> decimal_value (show_nat (length cartItems)) = length cartItems
    \<and> set (show_nat (length cartItems)) \<subseteq> set ''0123456789''"
proof -
  from assms obtain c where "cartItems \<noteq> []" "db' = committed db clock checkinId cartItems c"
    by (rule processPurchase_success)
  then show ?thesis
    using show_nat_digits [of "length cartItems"]
    by (simp add: committed_def purchaseDocs_def purchaseDoc_def shopPaymentDoc_def
        totalAmount_sum decimal_value_show_nat)
qed

text \<open>
  Two instances: two soaps at 50 and three waters at 20 in two lines, and a cart of
  twelve lines.
\<close>

theorem processPurchase_ledger_entry_and_records_witness:
  "payments (snd (processPurchase shop_db tick ''stay1'' [soap_line 2, water_line 3])) ''stay1''
     = [\<lparr>pay_amount = - 160, pay_mode = ''shop'', pay_type = ''shop-purchase'',
         pay_timestamp = 1002, pay_description = ''Shop purchase (2 items)''\<rparr>]
   \<and> map p_amount (purchases (snd (processPurchase shop_db tick ''stay1'' [soap_line 2, water_line 3])))
     = [100, 60]
   \<and> payments (snd (processPurchase shop_db tick ''stay1'' twelve_lines)) ''stay1''
     = [\<lparr>pay_amount = - 300, pay_mode = ''shop'', pay_type = ''shop-purchase'',
         pay_timestamp = 1012, pay_description = ''Shop purchase (12 items)''\<rparr>]
   \<and> length (purchases (snd (processPurchase shop_db tick ''stay1'' twelve_lines))) = 12"
proof -
  obtain r db' where h: "processPurchase shop_db tick ''stay1'' [soap_line 2, water_line 3] = (r, db')"
    by (cases "processPurchase shop_db tick ''stay1'' [soap_line 2, water_line 3]")
  have "fst (processPurchase shop_db tick ''stay1'' [soap_line 2, water_line 3]) = Inr ok_result"
    by (simp add: processPurchase_result missingLine_def shop_db_def soap_line_def water_line_def)
  with h have h': "processPurchase shop_db tick ''stay1'' [soap_line 2, water_line 3] = (Inr ok_result, db')"
    by simp
  obtain r2 db2 where k: "processPurchase shop_db tick ''stay1'' twelve_lines = (r2, db2)"
    by (cases "processPurchase shop_db tick ''stay1'' twelve_lines")
  have "fst (processPurchase shop_db tick ''stay1'' twelve_lines) = Inr ok_result"
    by (simp add: processPurchase_result missingLine_def shop_db_def soap_line_def
        water_line_def twelve_lines_def eval_nat_numeral)
  with k have k': "processPurchase shop_db tick ''stay1'' twelve_lines = (Inr ok_result, db2)"
    by simp
  have len: "length twelve_lines = 12" by (simp add: twelve_lines_def)
  have tot: "(\<Sum>item\<leftarrow>twelve_lines. quantity item * unitPrice item) = 300"
    by (simp add: twelve_lines_def soap_line_def water_line_def eval_nat_numeral)
  have first: "payments db' ''stay1''
     = [\<lparr>pay_amount = - 160, pay_mode = ''shop'', pay_type = ''shop-purchase'',
         pay_timestamp = 1002, pay_description = ''Shop purchase (2 items)''\<rparr>]
     \<and> map p_amount (purchases db') = [100, 60]"
    using processPurchase_ledger_entry_and_records [OF h']
    by (simp add: shop_db_def soap_line_def water_line_def tick_def show_nat.simps)
  have second: "payments db2 ''stay1''
     = [\<lparr>pay_amount = - 300, pay_mode = ''shop'', pay_type = ''shop-purchase'',
         pay_timestamp = 1012, pay_description = ''Shop purchase (12 items)''\<rparr>]
     \<and> length (purchases db2) = 12"
    using processPurchase_ledger_entry_and_records [OF k']
    by (simp add: len tot shop_db_def tick_def show_nat.simps)
  from first second show ?thesis unfolding h' k' by simp
qed

section \<open>The prices that are billed\<close>

text \<open>
  C6 (amended). \<open>totalAmount\<close> is the sum of quantity times unit price over the cart
  lines, with the unit prices the cart lines carry; \<open>processPurchase\<close> does not read
  the inventory's prices. Replacing every unit price in the inventory changes neither
  the outcome of the call nor the purchase records, payment entries and check-in
  documents it leaves behind.
\<close>

theorem processPurchase_bills_cart_prices:
  "totalAmount cartItems = (\<Sum>item\<leftarrow>cartItems. quantity item * unitPrice item)
   \<and> fst (processPurchase (withPrices price db) clock checkinId cartItems)
       = fst (processPurchase db clock checkinId cartItems)
   \<and> purchases (snd (processPurchase (withPrices price db) clock checkinId cartItems))
       = purchases (snd (processPurchase db clock checkinId cartItems))
   \<and> payments (snd (processPurchase (withPrices price db) clock checkinId cartItems))
       = payments (snd (processPurchase db clock checkinId cartItems))
   \<and> checkins (snd (processPurchase (withPrices price db) clock checkinId cartItems))
       = checkins (snd (processPurchase db clock checkinId cartItems))"
proof -
  have same: "checkins (withPrices price db) = checkins db"
    "purchases (withPrices price db) = purchases db"
    "payments (withPrices price db) = payments db"
    by (simp_all add: withPrices_def)
  show ?thesis
    unfolding processPurchase_result missingLine_withPrices
    by (simp add: totalAmount_sum same committed_def split: option.splits)
qed

text \<open>
  The statement with commit-time prices fails: the cart was built by \<open>addToCart\<close> when
  the soap cost 50, the inventory says 70 when the purchase commits, and the stay is
  billed 100 for two soaps, not 140.
\<close>

theorem processPurchase_stale_price_counterexample:
  "addToCart ''stay1'' (addToCart ''stay1'' [] soap_item) soap_item = [soap_line 2]
   \<and> unitPrice (soap_line 2) = 50
   \<and> map_option inv_unitPrice (inventory repriced_db ''soap'') = Some 70
   \<and> fst (processPurchase repriced_db tick ''stay1'' [soap_line 2]) = Inr ok_result
   \<and> map pay_amount (payments (snd (processPurchase repriced_db tick ''stay1'' [soap_line 2])) ''stay1'')
       = [- 100]
   \<and> map p_amount (purchases (snd (processPurchase repriced_db tick ''stay1'' [soap_line 2])))
       = [100]
   \<and> (2 * 70 \<noteq> (100 :: int))"
  by (simp add: example_defs repriced_db_def withPrices_def addToCart_def soap_item_def)

section \<open>The target stay\<close>

text \<open>
  C7 (amended). When the target stay has no check-in document, \<open>processPurchase\<close>
  fails and the store is unchanged: no inventory decrement, no purchase record, no
  payment entry. Whether the stay is checked out is not looked at.
\<close>

theorem processPurchase_unknown_stay:
  assumes "checkins db checkinId = None"
  shows "isl (fst (processPurchase db clock checkinId cartItems))
    \<and> snd (processPurchase db clock checkinId cartItems) = db"
  using assms unfolding processPurchase_result
  by (simp split: option.splits)

text \<open>An instance: a stay id that no check-in document has.\<close>

theorem processPurchase_unknown_stay_witness:
  "checkins shop_db ''stay9'' = None
   \<and> fst (processPurchase shop_db tick ''stay9'' [soap_line 1]) = Inl (NotFound ''checkins'' ''stay9'')
   \<and> snd (processPurchase shop_db tick ''stay9'' [soap_line 1]) = shop_db"
proof -
  have h: "checkins shop_db ''stay9'' = None" by (simp add: shop_db_def)
  have "fst (processPurchase shop_db tick ''stay9'' [soap_line 1]) = Inl (NotFound ''checkins'' ''stay9'')"
    by (simp add: processPurchase_result missingLine_def shop_db_def soap_line_def)
  with processPurchase_unknown_stay [OF h, of tick "[soap_line 1]"] h show ?thesis by simp
qed

text \<open>
  The statement with the closed stay fails: the second stay is checked out, the
  purchase against it succeeds, stock is decremented and a payment entry is written.
\<close>

theorem processPurchase_closed_stay_counterexample:
  "map_option c_isCheckedOut (checkins shop_db ''stay2'') = Some True
   \<and> fst (processPurchase shop_db tick ''stay2'' [soap_line 2]) = Inr ok_result
   \<and> map pay_amount (payments (snd (processPurchase shop_db tick ''stay2'' [soap_line 2])) ''stay2'')
       = [- 100]
   \<and> map_option inv_quantity
        (inventory (snd (processPurchase shop_db tick ''stay2'' [soap_line 2])) ''soap'')
       = Some 0"
  by (simp add: example_defs)

section \<open>Empty carts\<close>

text \<open>
  C8. A call with a cart of zero lines is rejected by the first guard of the function,
  with the error \<open>Invalid purchase data\<close>, before the batch is created: the store
  (inventory, purchases, check-ins, payments) is returned as it was.
\<close>

theorem processPurchase_empty_cart:
  "processPurchase db clock checkinId [] = (Inl InvalidPurchaseData, db)"
  by (simp add: processPurchase_def)

section \<open>The initial entry of a history\<close>

text \<open>
  C9. When the history of a stay holds no entry of type \<open>initial\<close>, the entry used in
  its place is synthetic: its amount is the stay's rent, its mode is \<open>cash\<close>, its
  timestamp is the stay's check-in time (the current time only when the stay has none).
  When the history holds an entry of type \<open>initial\<close>, the first such entry is used as it
  is. Either way it is the second entry of the full history, after the rent entry, and
  the other entries follow.
\<close>

theorem advanceEntry_synthetic_or_unchanged:
  "((\<forall>p\<in>set history. e_type p \<noteq> ''initial'') \<longrightarrow>
      advanceEntry customer now history =
        \<lparr>e_id = ''advance-entry'',
         e_amount = cust_rent customer,
         e_mode = ''cash'',
         e_type = ''initial'',
         e_timestamp = (case cust_checkedInAt customer of Some t \<Rightarrow> t | None \<Rightarrow> now),
         e_description = Some ''Initial payment at check-in''\<rparr>)
   \<and> (\<forall>t. (\<forall>p\<in>set history. e_type p \<noteq> ''initial'') \<and> cust_checkedInAt customer = Some t \<longrightarrow>
         e_timestamp (advanceEntry customer now history) = t)
   \<and> ((\<exists>p\<in>set history. e_type p = ''initial'') \<longrightarrow>
        find (\<lambda>p. e_type p = ''initial'') history = Some (advanceEntry customer now history)
        \<and> advanceEntry customer now history \<in> set history)
   \<and> fullHistory customer now1 now history =
        [rentEntry customer now1, advanceEntry customer now history]
        @ filter (\<lambda>p. e_type p \<noteq> ''initial'') history"
proof (cases "find (\<lambda>p. e_type p = ''initial'') history")
  case None
  then have "\<forall>p\<in>set history. e_type p \<noteq> ''initial''"
    by (auto simp: find_None_iff)
  with None show ?thesis
    by (auto simp: advanceEntry_def fullHistory_def)
next
  case (Some p)
  then have "p \<in> set history" "e_type p = ''initial''"
    by (auto simp: find_Some_iff in_set_conv_nth)
  with Some show ?thesis
    by (auto simp: advanceEntry_def fullHistory_def)
qed

text \<open>
  Two instances: a history with a later cash payment only, and one that starts with an
  initial payment by gpay.
\<close>

theorem advanceEntry_synthetic_or_unchanged_witness:
  "map e_type advance_only = [''advance'']
   \<and> advanceEntry legacy_customer 99 advance_only
       = \<lparr>e_id = ''advance-entry'', e_amount = 800, e_mode = ''cash'', e_type = ''initial'',
          e_timestamp = 5, e_description = Some ''Initial payment at check-in''\<rparr>
   \<and> map e_type with_initial = [''initial'', ''advance'']
   \<and> advanceEntry legacy_customer 99 with_initial = with_initial ! 0"
proof -
  have h1: "\<forall>p\<in>set advance_only. e_type p \<noteq> ''initial''"
    by (simp add: advance_only_def)
  have h2: "\<exists>p\<in>set with_initial. e_type p = ''initial''"
    by (simp add: with_initial_def)
  have a: "advanceEntry legacy_customer 99 advance_only
       = \<lparr>e_id = ''advance-entry'', e_amount = 800, e_mode = ''cash'', e_type = ''initial'',
          e_timestamp = 5, e_description = Some ''Initial payment at check-in''\<rparr>"
    using advanceEntry_synthetic_or_unchanged [of advance_only legacy_customer 99] h1
    by (simp add: legacy_customer_def)
  have "find (\<lambda>p. e_type p = ''initial'') with_initial
             = Some (advanceEntry legacy_customer 99 with_initial)"
    using advanceEntry_synthetic_or_unchanged [of with_initial legacy_customer 99] h2 by blast
  then have b: "advanceEntry legacy_customer 99 with_initial = with_initial ! 0"
    by (simp add: with_initial_def)
  have c: "map e_type advance_only = [''advance'']"
    "map e_type with_initial = [''initial'', ''advance'']"
    by (simp_all add: advance_only_def with_initial_def)
  from a b c show ?thesis by simp
qed

section \<open>The stay's initial payment\<close>

text \<open>
  C10. A successful \<open>processPurchase\<close> also updates the check-in document of the target
  stay: its \<open>initialPayment\<close> field is decreased by the total amount of the cart, so it
  changes whenever that total is not zero.
\<close>

theorem processPurchase_decrements_initialPayment:
  assumes "processPurchase db clock checkinId cartItems = (Inr r, db')"
  shows "\<exists>c. checkins db checkinId = Some c
    \<and> checkins db' checkinId
        = Some (c\<lparr>c_initialPayment :=
                    c_initialPayment c - (\<Sum>item\<leftarrow>cartItems. quantity item * unitPrice item)\<rparr>)
    \<and> ((\<Sum>item\<leftarrow>cartItems. quantity item * unitPrice item) \<noteq> 0
         \<longrightarrow> checkins db' checkinId \<noteq> checkins db checkinId)"
proof -
  from assms obtain c where c: "checkins db checkinId = Some c"
    and db': "db' = committed db clock checkinId cartItems c"
    by (rule processPurchase_success)
  have "c\<lparr>c_initialPayment := c_initialPayment c - t\<rparr> \<noteq> c" if "t \<noteq> 0" for t :: int
  proof
    assume "c\<lparr>c_initialPayment := c_initialPayment c - t\<rparr> = c"
    then have "c_initialPayment (c\<lparr>c_initialPayment := c_initialPayment c - t\<rparr>) = c_initialPayment c"
      by simp
    with that show False by simp
  qed
  with c db' show ?thesis
    by (simp add: committed_def totalAmount_sum)
qed

text \<open>An instance: two soaps at 50 take the initial payment from 1000 to 900.\<close>

theorem processPurchase_decrements_initialPayment_witness:
  "map_option c_initialPayment (checkins shop_db ''stay1'') = Some 1000
   \<and> map_option c_initialPayment
        (checkins (snd (processPurchase shop_db tick ''stay1'' [soap_line 2])) ''stay1'')
       = Some 900"
proof -
  obtain r db' where h: "processPurchase shop_db tick ''stay1'' [soap_line 2] = (r, db')"
    by (cases "processPurchase shop_db tick ''stay1'' [soap_line 2]")
  have "fst (processPurchase shop_db tick ''stay1'' [soap_line 2]) = Inr ok_result"
    by (simp add: processPurchase_result missingLine_def shop_db_def soap_line_def)
  with h have h': "processPurchase shop_db tick ''stay1'' [soap_line 2] = (Inr ok_result, db')"
    by simp
  from processPurchase_decrements_initialPayment [OF h']
  show ?thesis unfolding h'
    by (auto simp: shop_db_def soap_line_def)
qed

end
